theory Spec2Isabelle
  imports
    Complex_Main
    "HOL-Library.Multiset"
    "HOL-Library.AList"
    "HOL-Library.Char_ord"
    "HOL-Library.List_Lexorder"
begin

section \<open>The indicator engine of \<open>u_stock_learning/indicators/compute_indicators.py\<close>\<close>

subsection \<open>Python values\<close>

text \<open>
  The engine reads JSON that \<open>json.load\<close> turned into dictionaries. A key of a
  dictionary is either missing or present; a present numeric value is either \<open>None\<close>
  (JSON \<open>null\<close>) or a number. Numbers are modelled as reals: rounding of Python floats
  is not part of the model. A value of type \<open>real option\<close> is Python's
  \<open>Optional[float]\<close>.
\<close>

datatype py_error = KeyError | TypeError | ZeroDivisionError | StatisticsError

datatype 'a field = Missing | Present 'a

text \<open>\<open>row[key]\<close>: raises \<open>KeyError\<close> on a missing key.\<close>

fun subscript :: "'a field \<Rightarrow> py_error + 'a" where
  "subscript Missing = Inl KeyError"
| "subscript (Present v) = Inr v"

text \<open>\<open>d.get(key)\<close>: a missing key reads as \<open>None\<close>.\<close>

fun get :: "'a option field \<Rightarrow> 'a option" where
  "get Missing = None"
| "get (Present v) = v"

text \<open>Sequencing of computations that may raise.\<close>

fun bind_err :: "py_error + 'a \<Rightarrow> ('a \<Rightarrow> py_error + 'b) \<Rightarrow> py_error + 'b" where
  "bind_err (Inl e) f = Inl e"
| "bind_err (Inr v) f = f v"

text \<open>Truthiness of an optional number (\<open>if value:\<close>): \<open>None\<close> and zero are false.\<close>

fun truthy :: "real option \<Rightarrow> bool" where
  "truthy None = False"
| "truthy (Some x) = (x \<noteq> 0)"

text \<open>\<open>a or b\<close> on optional numbers.\<close>

definition py_or :: "real option \<Rightarrow> real option \<Rightarrow> real option" where
  "py_or a b = (if truthy a then a else b)"

text \<open>\<open>a / b\<close> and \<open>a - b\<close> on optional numbers: \<open>None\<close> is not an operand.\<close>

fun py_truediv :: "real option \<Rightarrow> real option \<Rightarrow> py_error + real" where
  "py_truediv (Some x) (Some y) = (if y = 0 then Inl ZeroDivisionError else Inr (x / y))"
| "py_truediv _ _ = Inl TypeError"

fun py_sub :: "real option \<Rightarrow> real option \<Rightarrow> py_error + real" where
  "py_sub (Some x) (Some y) = Inr (x - y)"
| "py_sub _ _ = Inl TypeError"

text \<open>\<open>v != 0\<close>: \<open>None\<close> is different from zero.\<close>

definition py_ne0 :: "real option \<Rightarrow> bool" where
  "py_ne0 v = (v \<noteq> Some 0)"

subsection \<open>Data model\<close>

text \<open>
  A row of the price list. The engine reads the keys \<open>date\<close> and \<open>close\<close> only; the
  other keys of a row (open, high, low, volume, adjclose) live in the record's extension.
  Dates are the strings written by the price fetcher and are compared as Python compares
  strings, lexicographically.
\<close>

record bar =
  date :: "string field"
  close :: "real option field"

text \<open>The \<open>trading_snapshot\<close> dictionary of a symbol's fundamentals, and the
  fundamentals dictionary, of which the engine reads that one key. Every snapshot field is
  read with \<open>get\<close>, so a missing field and a null field both read as \<open>None\<close>.\<close>

record snapshot =
  regularMarketOpen :: "real option field"
  regularMarketDayHigh :: "real option field"
  regularMarketDayLow :: "real option field"
  regularMarketVolume :: "real option field"
  averageDailyVolume10Day :: "real option field"
  regularMarketPreviousClose :: "real option field"

record fundamentals =
  trading_snapshot :: "snapshot field"

text \<open>The empty dictionary \<open>{}\<close>, as a snapshot and as a fundamentals record.\<close>

definition empty_snapshot :: snapshot where
  "empty_snapshot =
     \<lparr>regularMarketOpen = Missing, regularMarketDayHigh = Missing,
      regularMarketDayLow = Missing, regularMarketVolume = Missing,
      averageDailyVolume10Day = Missing, regularMarketPreviousClose = Missing\<rparr>"

definition empty_fundamentals :: fundamentals where
  "empty_fundamentals = \<lparr>trading_snapshot = Missing\<rparr>"

text \<open>The dictionary returned for one symbol.\<close>

record signal =
  symbol :: string
  close_return_1d :: "real option"
  gap_pct :: "real option"
  day_range_pct :: "real option"
  volume_ratio :: "real option"
  vol_10d :: "real option"
  in_play_score :: real

subsection \<open>Return Calculator: \<open>compute_daily_returns\<close>\<close>

text \<open>\<open>closes = [row["close"] for row in prices]\<close>\<close>

fun closes_of :: "bar list \<Rightarrow> py_error + real option list" where
  "closes_of [] = Inr []"
| "closes_of (row # rows) =
     bind_err (subscript (close row)) (\<lambda>c.
     bind_err (closes_of rows) (\<lambda>cs. Inr (c # cs)))"

text \<open>
  The loop \<open>for i in range(1, len(closes))\<close>: the head of the list is \<open>closes[i - 1]\<close>,
  its second element \<open>closes[i]\<close> (\<open>prev\<close> and \<open>curr\<close> in the source), and
  \<open>returns\<close> is the list built so far.
\<close>

fun returns_loop :: "real option list \<Rightarrow> real list \<Rightarrow> py_error + real list" where
  "returns_loop (prv # cur # rest) returns =
     (if prv = None \<or> prv = Some 0 then returns_loop (cur # rest) returns
      else bind_err (py_truediv cur prv) (\<lambda>q.
           returns_loop (cur # rest) (returns @ [q - 1])))"
| "returns_loop [c] returns = Inr returns"
| "returns_loop [] returns = Inr returns"

definition compute_daily_returns :: "bar list \<Rightarrow> py_error + real list" where
  "compute_daily_returns prices =
     bind_err (closes_of prices) (\<lambda>closes. returns_loop closes [])"

subsection \<open>Sorting by date\<close>

text \<open>
  \<open>sorted(daily_prices, key=lambda row: row["date"])\<close> computes the key of every row
  first, which raises on a row without a date, and then sorts the rows by their keys,
  stably. The result is a new list.
\<close>

fun date_keys :: "bar list \<Rightarrow> py_error + string list" where
  "date_keys [] = Inr []"
| "date_keys (row # rows) =
     bind_err (subscript (date row)) (\<lambda>d.
     bind_err (date_keys rows) (\<lambda>ds. Inr (d # ds)))"

definition sorted_by_date :: "bar list \<Rightarrow> py_error + bar list" where
  "sorted_by_date rows =
     bind_err (date_keys rows) (\<lambda>ds. Inr (map snd (sort_key fst (zip ds rows))))"

subsection \<open>Snapshot Mixer\<close>

text \<open>Lines 76 to 78: the one-day close-to-close return.\<close>

definition close_return_1d_of :: "real option \<Rightarrow> real option \<Rightarrow> py_error + real option" where
  "close_return_1d_of last_close prev_close =
     (if truthy prev_close
      then bind_err (py_truediv last_close prev_close) (\<lambda>q. Inr (Some (q - 1)))
      else Inr None)"

text \<open>Lines 90 to 93.\<close>

definition gap_pct_of :: "real option \<Rightarrow> real option \<Rightarrow> real option \<Rightarrow> py_error + real option" where
  "gap_pct_of prev_close today_open prev_close_ref =
     (let base_prev_close = py_or prev_close_ref prev_close in
      if truthy base_prev_close \<and> truthy today_open
      then bind_err (py_truediv today_open base_prev_close) (\<lambda>q. Inr (Some (q - 1)))
      else Inr None)"

text \<open>Lines 96 to 99.\<close>

definition day_range_pct_of :: "real option \<Rightarrow> real option \<Rightarrow> real option \<Rightarrow> py_error + real option" where
  "day_range_pct_of today_open today_high today_low =
     (if truthy today_open \<and> truthy today_high \<and> truthy today_low
      then (if py_ne0 today_open
            then bind_err (py_sub today_high today_low) (\<lambda>d.
                 bind_err (py_truediv (Some d) today_open) (\<lambda>q. Inr (Some q)))
            else Inr None)
      else Inr None)"

text \<open>Lines 102 to 105.\<close>

definition volume_ratio_of :: "real option \<Rightarrow> real option \<Rightarrow> py_error + real option" where
  "volume_ratio_of today_volume avg_vol_10d =
     (if truthy today_volume \<and> truthy avg_vol_10d
      then (if py_ne0 avg_vol_10d
            then bind_err (py_truediv today_volume avg_vol_10d) (\<lambda>q. Inr (Some q))
            else Inr None)
      else Inr None)"

subsection \<open>Volatility Estimator\<close>

text \<open>
  \<open>statistics.stdev\<close> of the Python standard library: the square root of the sample
  variance, the sum of the squared deviations from the mean divided by \<open>n - 1\<close>. It
  raises \<open>StatisticsError\<close> on fewer than two data points.
\<close>

definition mean :: "real list \<Rightarrow> real" where
  "mean data = sum_list data / real (length data)"

definition stdev :: "real list \<Rightarrow> py_error + real" where
  "stdev data =
     (if length data < 2 then Inl StatisticsError
      else Inr (sqrt (sum_list (map (\<lambda>x. (x - mean data)\<^sup>2) data) / real (length data - 1))))"

text \<open>The slice \<open>returns[-10:]\<close>: the last ten elements, or all of them if there are fewer.\<close>

definition last10 :: "'a list \<Rightarrow> 'a list" where
  "last10 xs = drop (length xs - 10) xs"

text \<open>Lines 109 to 114.\<close>

definition vol_10d_of :: "real list \<Rightarrow> py_error + real option" where
  "vol_10d_of returns =
     (if length returns \<ge> 2
      then (let window = last10 returns in
            if length window \<ge> 2
            then bind_err (stdev window) (\<lambda>s. Inr (Some s))
            else Inr None)
      else Inr None)"

subsection \<open>Composite Scorer\<close>

text \<open>Lines 119 to 132: each \<open>if\<close> adds one contribution to \<open>in_play_score\<close>.\<close>

definition gap_contribution :: "real option \<Rightarrow> real" where
  "gap_contribution g = (case g of None \<Rightarrow> 0 | Some v \<Rightarrow> min (\<bar>v\<bar> * 100) 50)"

definition range_contribution :: "real option \<Rightarrow> real" where
  "range_contribution r = (case r of None \<Rightarrow> 0 | Some v \<Rightarrow> min (v * 100) 30)"

definition volume_contribution :: "real option \<Rightarrow> real" where
  "volume_contribution vr = (case vr of None \<Rightarrow> 0 | Some v \<Rightarrow> min (max (v - 1) 0 * 10) 40)"

definition volatility_contribution :: "real option \<Rightarrow> real" where
  "volatility_contribution vol = (case vol of None \<Rightarrow> 0 | Some v \<Rightarrow> min (v * 100) 30)"

definition in_play_score_of :: "real option \<Rightarrow> real option \<Rightarrow> real option \<Rightarrow> real option \<Rightarrow> real" where
  "in_play_score_of g r vr vol =
     0 + gap_contribution g + range_contribution r + volume_contribution vr
       + volatility_contribution vol"

subsection \<open>\<open>compute_indicators_for_symbol\<close>\<close>

text \<open>\<open>fundamentals.get("trading_snapshot", {})\<close>\<close>

definition snapshot_of :: "fundamentals \<Rightarrow> snapshot" where
  "snapshot_of fund = (case trading_snapshot fund of Missing \<Rightarrow> empty_snapshot | Present s \<Rightarrow> s)"

text \<open>
  The result \<open>None\<close> is the empty dictionary returned for fewer than two rows. The
  indices \<open>[-1]\<close> and \<open>[-2]\<close> are in range, the sorted list having at least two rows.
\<close>

definition compute_indicators_for_symbol ::
    "string \<Rightarrow> bar list \<Rightarrow> fundamentals \<Rightarrow> py_error + signal option" where
  "compute_indicators_for_symbol symb daily_prices fund =
     (if length daily_prices < 2 then Inr None
      else
        bind_err (sorted_by_date daily_prices) (\<lambda>daily_prices_sorted.
        let last_row = daily_prices_sorted ! (length daily_prices_sorted - 1);
            prev_row = daily_prices_sorted ! (length daily_prices_sorted - 2) in
        bind_err (subscript (close last_row)) (\<lambda>last_close.
        bind_err (subscript (close prev_row)) (\<lambda>prev_close.
        bind_err (close_return_1d_of last_close prev_close) (\<lambda>cr.
        let snap = snapshot_of fund;
            today_open = get (regularMarketOpen snap);
            today_high = get (regularMarketDayHigh snap);
            today_low = get (regularMarketDayLow snap);
            today_volume = get (regularMarketVolume snap);
            avg_vol_10d = get (averageDailyVolume10Day snap);
            prev_close_ref = get (regularMarketPreviousClose snap) in
        bind_err (gap_pct_of prev_close today_open prev_close_ref) (\<lambda>g.
        bind_err (day_range_pct_of today_open today_high today_low) (\<lambda>r.
        bind_err (volume_ratio_of today_volume avg_vol_10d) (\<lambda>vr.
        bind_err (compute_daily_returns daily_prices_sorted) (\<lambda>returns.
        bind_err (vol_10d_of returns) (\<lambda>vol.
        Inr (Some \<lparr>symbol = symb, close_return_1d = cr, gap_pct = g, day_range_pct = r,
                   volume_ratio = vr, vol_10d = vol,
                   in_play_score = in_play_score_of g r vr vol\<rparr>)))))))))))"

text \<open>
  Lines 69 to 142 on their own: what the function computes from \<open>daily_prices_sorted\<close>,
  a list of at least two rows, without sorting it again.
\<close>

definition indicators_in_date_order ::
    "string \<Rightarrow> bar list \<Rightarrow> fundamentals \<Rightarrow> py_error + signal option" where
  "indicators_in_date_order symb daily_prices_sorted fund =
     (let last_row = daily_prices_sorted ! (length daily_prices_sorted - 1);
          prev_row = daily_prices_sorted ! (length daily_prices_sorted - 2) in
      bind_err (subscript (close last_row)) (\<lambda>last_close.
      bind_err (subscript (close prev_row)) (\<lambda>prev_close.
      bind_err (close_return_1d_of last_close prev_close) (\<lambda>cr.
      let snap = snapshot_of fund;
          today_open = get (regularMarketOpen snap);
          today_high = get (regularMarketDayHigh snap);
          today_low = get (regularMarketDayLow snap);
          today_volume = get (regularMarketVolume snap);
          avg_vol_10d = get (averageDailyVolume10Day snap);
          prev_close_ref = get (regularMarketPreviousClose snap) in
      bind_err (gap_pct_of prev_close today_open prev_close_ref) (\<lambda>g.
      bind_err (day_range_pct_of today_open today_high today_low) (\<lambda>r.
      bind_err (volume_ratio_of today_volume avg_vol_10d) (\<lambda>vr.
      bind_err (compute_daily_returns daily_prices_sorted) (\<lambda>returns.
      bind_err (vol_10d_of returns) (\<lambda>vol.
      Inr (Some \<lparr>symbol = symb, close_return_1d = cr, gap_pct = g, day_range_pct = r,
                 volume_ratio = vr, vol_10d = vol,
                 in_play_score = in_play_score_of g r vr vol\<rparr>))))))))))"

subsection \<open>Signal Aggregator: the loop of \<open>main\<close>\<close>

text \<open>
  \<open>prices_by_symbol\<close> and \<open>signals\<close> are dictionaries in insertion order, modelled as
  association lists; \<open>fundamentals_by_symbol.get(symbol, {})\<close> reads a map. The loop
  stops at the first symbol whose computation raises.
\<close>



subsection \<open>The Snapshot Mixer as the specification words it\<close>

text \<open>
  The specification's reading of the three snapshot formulas, where "present" means
  neither missing nor null and only the denominator is guarded against zero. These
  definitions follow the specification, not the source; they are compared with the
  source's formulas below.
\<close>

definition spec_day_range_pct :: "real option \<Rightarrow> real option \<Rightarrow> real option \<Rightarrow> real option" where
  "spec_day_range_pct today_open today_high today_low =
     (case (today_open, today_high, today_low) of
        (Some opn, Some h, Some l) \<Rightarrow> if opn \<noteq> 0 then Some ((h - l) / opn) else None
      | _ \<Rightarrow> None)"

definition spec_gap_pct :: "real option \<Rightarrow> real option \<Rightarrow> real option \<Rightarrow> real option" where
  "spec_gap_pct prev_close today_open prev_close_ref =
     (let base_prev_close = (case prev_close_ref of Some r \<Rightarrow> Some r | None \<Rightarrow> prev_close) in
      case (base_prev_close, today_open) of
        (Some b, Some opn) \<Rightarrow> Some (opn / b - 1)
      | _ \<Rightarrow> None)"

definition spec_volume_ratio :: "real option \<Rightarrow> real option \<Rightarrow> real option" where
  "spec_volume_ratio today_volume avg_vol_10d =
     (case (today_volume, avg_vol_10d) of
        (Some v, Some a) \<Rightarrow> if a \<noteq> 0 then Some (v / a) else None
      | _ \<Rightarrow> None)"

subsection \<open>Auxiliary notions\<close>

text \<open>The date of a row that has one, and the number of unusable denominators of a
  list of closes: the closes, the last one apart, that are \<open>None\<close> or zero.\<close>

definition date_of :: "bar \<Rightarrow> string" where
  "date_of row = (case date row of Present d \<Rightarrow> d | Missing \<Rightarrow> [])"

definition skipped_pairs :: "real option list \<Rightarrow> nat" where
  "skipped_pairs closes = length (filter (\<lambda>c. c = None \<or> c = Some 0) (butlast closes))"

text \<open>
  A list of closes has usable numerators if no adjacent pair has a denominator that is a
  number different from zero and the numerator \<open>None\<close>. The usable pairs of a list of
  closes are its adjacent pairs of numbers whose denominator is not zero, oldest first.
\<close>

fun numerators_usable :: "real option list \<Rightarrow> bool" where
  "numerators_usable (p # c # rest) =
     ((p = None \<or> p = Some 0 \<or> c \<noteq> None) \<and> numerators_usable (c # rest))"
| "numerators_usable [c] = True"
| "numerators_usable [] = True"

fun usable_pairs :: "real option list \<Rightarrow> (real \<times> real) list" where
  "usable_pairs (Some p # Some c # rest) =
     (if p = 0 then [] else [(p, c)]) @ usable_pairs (Some c # rest)"
| "usable_pairs (p # c # rest) = usable_pairs (c # rest)"
| "usable_pairs [c] = []"
| "usable_pairs [] = []"

subsection \<open>Concrete inputs\<close>

text \<open>The two-bar price list and the snapshot of the specification's scenarios.\<close>

definition ex_rows :: "bar list" where
  "ex_rows =
     [\<lparr>date = Present ''2024-01-01'', close = Present (Some 100)\<rparr>,
      \<lparr>date = Present ''2024-01-02'', close = Present (Some 110)\<rparr>]"

definition ex_snapshot :: snapshot where
  "ex_snapshot =
     \<lparr>regularMarketOpen = Present (Some 108), regularMarketDayHigh = Present (Some 112),
      regularMarketDayLow = Present (Some 107), regularMarketVolume = Present (Some 2500000),
      averageDailyVolume10Day = Present (Some 1000000),
      regularMarketPreviousClose = Present (Some 100)\<rparr>"

definition ex_fund :: fundamentals where
  "ex_fund = \<lparr>trading_snapshot = Present ex_snapshot\<rparr>"

text \<open>Snapshots with a present field equal to zero, and one whose high is below its low.\<close>

definition snap_low_zero :: snapshot where
  "snap_low_zero =
     empty_snapshot\<lparr>regularMarketOpen := Present (Some 2),
       regularMarketDayHigh := Present (Some 3), regularMarketDayLow := Present (Some 0)\<rparr>"

definition snap_open_zero :: snapshot where
  "snap_open_zero =
     empty_snapshot\<lparr>regularMarketOpen := Present (Some 0),
       regularMarketPreviousClose := Present (Some 100)\<rparr>"

definition snap_ref_zero :: snapshot where
  "snap_ref_zero =
     empty_snapshot\<lparr>regularMarketOpen := Present (Some 110),
       regularMarketPreviousClose := Present (Some 0)\<rparr>"

definition snap_volume_zero :: snapshot where
  "snap_volume_zero =
     empty_snapshot\<lparr>regularMarketVolume := Present (Some 0),
       averageDailyVolume10Day := Present (Some 1000000)\<rparr>"

definition snap_inverted :: snapshot where
  "snap_inverted =
     empty_snapshot\<lparr>regularMarketOpen := Present (Some 100),
       regularMarketDayHigh := Present (Some 90), regularMarketDayLow := Present (Some 110)\<rparr>"


definition rows_no_close :: "bar list" where
  "rows_no_close =
     [\<lparr>date = Present ''2024-01-01'', close = Present (Some 100)\<rparr>,
      \<lparr>date = Present ''2024-01-02'', close = Missing\<rparr>]"

text \<open>The signal of the specification's second scenario, with its volume scenario added.\<close>

definition ex_signal :: signal where
  "ex_signal =
     \<lparr>symbol = ''AAPL'', close_return_1d = Some (1 / 10), gap_pct = Some (8 / 100),
      day_range_pct = Some (5 / 108), volume_ratio = Some (5 / 2), vol_10d = None,
      in_play_score = 8 + 500 / 108 + 15\<rparr>"

text \<open>Four bars, out of order, whose returns are -0.1, 0 and 0.1; the same bars by date;
  and the signal the engine computes for them without fundamentals.\<close>

definition ex_rows4 :: "bar list" where
  "ex_rows4 =
     [\<lparr>date = Present ''2024-01-03'', close = Present (Some 90)\<rparr>,
      \<lparr>date = Present ''2024-01-01'', close = Present (Some 100)\<rparr>,
      \<lparr>date = Present ''2024-01-04'', close = Present (Some 99)\<rparr>,
      \<lparr>date = Present ''2024-01-02'', close = Present (Some 90)\<rparr>]"

definition ex_rows4_by_date :: "bar list" where
  "ex_rows4_by_date =
     [\<lparr>date = Present ''2024-01-01'', close = Present (Some 100)\<rparr>,
      \<lparr>date = Present ''2024-01-02'', close = Present (Some 90)\<rparr>,
      \<lparr>date = Present ''2024-01-03'', close = Present (Some 90)\<rparr>,
      \<lparr>date = Present ''2024-01-04'', close = Present (Some 99)\<rparr>]"

definition ex_signal4 :: signal where
  "ex_signal4 =
     \<lparr>symbol = ''MSFT'', close_return_1d = Some (1 / 10), gap_pct = None,
      day_range_pct = None, volume_ratio = None, vol_10d = Some (1 / 10),
      in_play_score = 10\<rparr>"

text \<open>The signal the engine computes for the four bars with the fundamentals of the
  specification's scenario.\<close>

definition ex_signal4_fund :: signal where
  "ex_signal4_fund =
     \<lparr>symbol = ''MSFT'', close_return_1d = Some (1 / 10), gap_pct = Some (8 / 100),
      day_range_pct = Some (5 / 108), volume_ratio = Some (5 / 2), vol_10d = Some (1 / 10),
      in_play_score = 8 + 500 / 108 + 15 + 10\<rparr>"


text \<open>Three bars whose middle close is null.\<close>

definition rows_null_middle :: "bar list" where
  "rows_null_middle =
     [\<lparr>date = Present ''2024-01-01'', close = Present (Some 100)\<rparr>,
      \<lparr>date = Present ''2024-01-02'', close = Present None\<rparr>,
      \<lparr>date = Present ''2024-01-03'', close = Present (Some 110)\<rparr>]"




subsection \<open>The engine on a store of objects\<close>

text \<open>
  Python passes lists and dictionaries by reference. To say what a call does to its
  arguments, the engine is modelled a second time on a store of objects: an address is an
  index into the store and a new object is appended to it. The price list is a list of
  references to row dictionaries; the fundamentals dictionary refers to its snapshot
  dictionary. \<open>sorted\<close> builds a new list of the same references, \<open>returns = []\<close>
  creates a list, and \<open>returns.append\<close> updates that list in place. The lists
  \<open>closes\<close> and \<open>window\<close> are built once, never updated and never shared, and remain
  values. Reading an address that holds no object of the expected kind, which Python's
  references exclude, is a \<open>TypeError\<close> of the model.
\<close>

type_synonym addr = nat

datatype obj =
    RowList "addr list"
  | RowDict bar
  | FundDict "addr field"
  | SnapDict snapshot
  | FloatList "real list"

type_synonym store = "obj list"

definition alloc :: "obj \<Rightarrow> store \<Rightarrow> addr \<times> store" where
  "alloc ob h = (length h, h @ [ob])"

definition row_list_at :: "store \<Rightarrow> addr \<Rightarrow> py_error + addr list" where
  "row_list_at h a =
     (if a < length h then (case h ! a of RowList refs \<Rightarrow> Inr refs | _ \<Rightarrow> Inl TypeError)
      else Inl TypeError)"

definition row_at :: "store \<Rightarrow> addr \<Rightarrow> py_error + bar" where
  "row_at h a =
     (if a < length h then (case h ! a of RowDict row \<Rightarrow> Inr row | _ \<Rightarrow> Inl TypeError)
      else Inl TypeError)"

definition float_list_at :: "store \<Rightarrow> addr \<Rightarrow> py_error + real list" where
  "float_list_at h a =
     (if a < length h then (case h ! a of FloatList xs \<Rightarrow> Inr xs | _ \<Rightarrow> Inl TypeError)
      else Inl TypeError)"

definition snap_at :: "store \<Rightarrow> addr \<Rightarrow> py_error + snapshot" where
  "snap_at h a =
     (if a < length h then (case h ! a of SnapDict s \<Rightarrow> Inr s | _ \<Rightarrow> Inl TypeError)
      else Inl TypeError)"

text \<open>\<open>fundamentals.get("trading_snapshot", {})\<close> through the reference \<open>fundamentals\<close>.\<close>

definition snapshot_at :: "store \<Rightarrow> addr \<Rightarrow> py_error + snapshot" where
  "snapshot_at h a =
     (if a < length h
      then (case h ! a of
              FundDict Missing \<Rightarrow> Inr empty_snapshot
            | FundDict (Present s) \<Rightarrow> snap_at h s
            | _ \<Rightarrow> Inl TypeError)
      else Inl TypeError)"

text \<open>The rows behind a list of references, in the order of the list.\<close>

fun rows_at :: "store \<Rightarrow> addr list \<Rightarrow> py_error + bar list" where
  "rows_at h [] = Inr []"
| "rows_at h (r # rs) =
     bind_err (row_at h r) (\<lambda>row.
     bind_err (rows_at h rs) (\<lambda>rows. Inr (row # rows)))"

text \<open>\<open>sorted(daily_prices, key=lambda row: row["date"])\<close>: a new list object holding the
  references of the list at \<open>daily_prices\<close>, ordered by the dates of their rows.\<close>

definition sorted_st :: "addr \<Rightarrow> store \<Rightarrow> (py_error + addr) \<times> store" where
  "sorted_st daily_prices h =
     (case row_list_at h daily_prices of Inl e \<Rightarrow> (Inl e, h) | Inr refs \<Rightarrow>
      case rows_at h refs of Inl e \<Rightarrow> (Inl e, h) | Inr rows \<Rightarrow>
      case date_keys rows of Inl e \<Rightarrow> (Inl e, h) | Inr ds \<Rightarrow>
      case alloc (RowList (map snd (sort_key fst (zip ds refs)))) h of
        (a, h') \<Rightarrow> (Inr a, h'))"

text \<open>\<open>returns.append(x)\<close>: the list object at \<open>returns\<close> is updated in place.\<close>

definition list_append :: "addr \<Rightarrow> real \<Rightarrow> store \<Rightarrow> (py_error + unit) \<times> store" where
  "list_append returns x h =
     (case float_list_at h returns of
        Inl e \<Rightarrow> (Inl e, h)
      | Inr xs \<Rightarrow> (Inr (), h[returns := FloatList (xs @ [x])]))"

fun returns_loop_st :: "real option list \<Rightarrow> addr \<Rightarrow> store \<Rightarrow> (py_error + unit) \<times> store" where
  "returns_loop_st (prv # cur # rest) returns h =
     (if prv = None \<or> prv = Some 0 then returns_loop_st (cur # rest) returns h
      else case py_truediv cur prv of
             Inl e \<Rightarrow> (Inl e, h)
           | Inr q \<Rightarrow>
               (case list_append returns (q - 1) h of
                  (Inl e, h') \<Rightarrow> (Inl e, h')
                | (Inr u, h') \<Rightarrow> returns_loop_st (cur # rest) returns h'))"
| "returns_loop_st [c] returns h = (Inr (), h)"
| "returns_loop_st [] returns h = (Inr (), h)"

definition compute_daily_returns_st :: "addr \<Rightarrow> store \<Rightarrow> (py_error + addr) \<times> store" where
  "compute_daily_returns_st prices h =
     (case row_list_at h prices of Inl e \<Rightarrow> (Inl e, h) | Inr refs \<Rightarrow>
      case rows_at h refs of Inl e \<Rightarrow> (Inl e, h) | Inr rows \<Rightarrow>
      case closes_of rows of Inl e \<Rightarrow> (Inl e, h) | Inr closes \<Rightarrow>
      case alloc (FloatList []) h of (returns, h1) \<Rightarrow>
      case returns_loop_st closes returns h1 of
        (Inl e, h2) \<Rightarrow> (Inl e, h2)
      | (Inr u, h2) \<Rightarrow> (Inr returns, h2))"

text \<open>The part of \<open>compute_indicators_for_symbol\<close> after the sort, which reads the store
  and changes it through \<open>compute_daily_returns\<close> only.\<close>

definition indicators_of_sorted ::
    "string \<Rightarrow> addr \<Rightarrow> addr \<Rightarrow> store \<Rightarrow> (py_error + signal option) \<times> store" where
  "indicators_of_sorted symb daily_prices_sorted fundamentals h =
     (case
        bind_err (row_list_at h daily_prices_sorted) (\<lambda>refs.
        bind_err (row_at h (refs ! (length refs - 1))) (\<lambda>last_row.
        bind_err (row_at h (refs ! (length refs - 2))) (\<lambda>prev_row.
        bind_err (subscript (close last_row)) (\<lambda>last_close.
        bind_err (subscript (close prev_row)) (\<lambda>prev_close.
        bind_err (close_return_1d_of last_close prev_close) (\<lambda>cr.
        bind_err (snapshot_at h fundamentals) (\<lambda>snap.
        let today_open = get (regularMarketOpen snap);
            today_high = get (regularMarketDayHigh snap);
            today_low = get (regularMarketDayLow snap);
            today_volume = get (regularMarketVolume snap);
            avg_vol_10d = get (averageDailyVolume10Day snap);
            prev_close_ref = get (regularMarketPreviousClose snap) in
        bind_err (gap_pct_of prev_close today_open prev_close_ref) (\<lambda>g.
        bind_err (day_range_pct_of today_open today_high today_low) (\<lambda>r.
        bind_err (volume_ratio_of today_volume avg_vol_10d) (\<lambda>vr.
        Inr (cr, g, r, vr)))))))))))
      of
        Inl e \<Rightarrow> (Inl e, h)
      | Inr (cr, g, r, vr) \<Rightarrow>
          (case compute_daily_returns_st daily_prices_sorted h of
             (Inl e, h') \<Rightarrow> (Inl e, h')
           | (Inr returns, h') \<Rightarrow>
               (bind_err (float_list_at h' returns) (\<lambda>rs.
                bind_err (vol_10d_of rs) (\<lambda>vol.
                Inr (Some \<lparr>symbol = symb, close_return_1d = cr, gap_pct = g,
                           day_range_pct = r, volume_ratio = vr, vol_10d = vol,
                           in_play_score = in_play_score_of g r vr vol\<rparr>))), h')))"

definition compute_indicators_for_symbol_st ::
    "string \<Rightarrow> addr \<Rightarrow> addr \<Rightarrow> store \<Rightarrow> (py_error + signal option) \<times> store" where
  "compute_indicators_for_symbol_st symb daily_prices fundamentals h =
     (case row_list_at h daily_prices of Inl e \<Rightarrow> (Inl e, h) | Inr refs \<Rightarrow>
      if length refs < 2 then (Inr None, h)
      else case sorted_st daily_prices h of
             (Inl e, h') \<Rightarrow> (Inl e, h')
           | (Inr daily_prices_sorted, h') \<Rightarrow>
               indicators_of_sorted symb daily_prices_sorted fundamentals h')"

text \<open>A store holding the two-bar price list, out of order, and the fundamentals of the
  specification's scenario.\<close>

definition ex_store :: store where
  "ex_store =
     [RowList [1, 2],
      RowDict \<lparr>date = Present ''2024-01-02'', close = Present (Some 110)\<rparr>,
      RowDict \<lparr>date = Present ''2024-01-01'', close = Present (Some 100)\<rparr>,
      FundDict (Present 4),
      SnapDict ex_snapshot]"

section \<open>Properties\<close>

subsection \<open>The blocks of the Snapshot Mixer never raise\<close>

lemma gap_pct_of_eq:
  "gap_pct_of prev_close today_open prev_close_ref =
     Inr (case (py_or prev_close_ref prev_close, today_open) of
            (Some b, Some opn) \<Rightarrow> if b \<noteq> 0 \<and> opn \<noteq> 0 then Some (opn / b - 1) else None
          | _ \<Rightarrow> None)"
  by (cases "py_or prev_close_ref prev_close"; cases today_open) (simp_all add: gap_pct_of_def)

lemma day_range_pct_of_eq:
  "day_range_pct_of today_open today_high today_low =
     Inr (case (today_open, today_high, today_low) of
            (Some opn, Some h, Some l) \<Rightarrow>
              if opn \<noteq> 0 \<and> h \<noteq> 0 \<and> l \<noteq> 0 then Some ((h - l) / opn) else None
          | _ \<Rightarrow> None)"
  by (cases today_open; cases today_high; cases today_low)
     (simp_all add: day_range_pct_of_def py_ne0_def)

lemma volume_ratio_of_eq:
  "volume_ratio_of today_volume avg_vol_10d =
     Inr (case (today_volume, avg_vol_10d) of
            (Some v, Some a) \<Rightarrow> if v \<noteq> 0 \<and> a \<noteq> 0 then Some (v / a) else None
          | _ \<Rightarrow> None)"
  by (cases today_volume; cases avg_vol_10d) (simp_all add: volume_ratio_of_def py_ne0_def)

lemma length_last10: "length (last10 xs) = min (length xs) 10"
  by (simp add: last10_def)

lemma vol_10d_of_eq:
  "vol_10d_of returns =
     Inr (if length returns < 2 then None
          else Some (sqrt (sum_list (map (\<lambda>x. (x - mean (last10 returns))\<^sup>2) (last10 returns))
                           / real (length (last10 returns) - 1))))"
  by (auto simp add: vol_10d_of_def stdev_def length_last10 Let_def)

subsection \<open>What a returned signal is made of\<close>

lemma compute_indicators_for_symbol_SomeE:
  assumes "compute_indicators_for_symbol symb daily_prices fund = Inr (Some sig)"
  obtains ps last_close prev_close cr g r vr returns vol where
    "2 \<le> length daily_prices"
    "sorted_by_date daily_prices = Inr ps"
    "close (ps ! (length ps - 1)) = Present last_close"
    "close (ps ! (length ps - 2)) = Present prev_close"
    "close_return_1d_of last_close prev_close = Inr cr"
    "gap_pct_of prev_close (get (regularMarketOpen (snapshot_of fund)))
        (get (regularMarketPreviousClose (snapshot_of fund))) = Inr g"
    "day_range_pct_of (get (regularMarketOpen (snapshot_of fund)))
        (get (regularMarketDayHigh (snapshot_of fund)))
        (get (regularMarketDayLow (snapshot_of fund))) = Inr r"
    "volume_ratio_of (get (regularMarketVolume (snapshot_of fund)))
        (get (averageDailyVolume10Day (snapshot_of fund))) = Inr vr"
    "compute_daily_returns ps = Inr returns"
    "vol_10d_of returns = Inr vol"
    "sig = \<lparr>symbol = symb, close_return_1d = cr, gap_pct = g, day_range_pct = r,
            volume_ratio = vr, vol_10d = vol, in_play_score = in_play_score_of g r vr vol\<rparr>"
proof -
  from assms have len: "2 \<le> length daily_prices"
    by (auto simp: compute_indicators_for_symbol_def split: if_splits)
  with assms obtain ps where ps: "sorted_by_date daily_prices = Inr ps"
    by (cases "sorted_by_date daily_prices") (simp_all add: compute_indicators_for_symbol_def)
  with assms len obtain last_close where lc: "close (ps ! (length ps - 1)) = Present last_close"
    by (cases "close (ps ! (length ps - 1))") (simp_all add: compute_indicators_for_symbol_def Let_def)
  with assms len ps obtain prev_close where pc: "close (ps ! (length ps - 2)) = Present prev_close"
    by (cases "close (ps ! (length ps - 2))") (simp_all add: compute_indicators_for_symbol_def Let_def)
  with assms len ps lc obtain cr where cr: "close_return_1d_of last_close prev_close = Inr cr"
    by (cases "close_return_1d_of last_close prev_close")
       (simp_all add: compute_indicators_for_symbol_def Let_def)
  obtain g where g: "gap_pct_of prev_close (get (regularMarketOpen (snapshot_of fund)))
        (get (regularMarketPreviousClose (snapshot_of fund))) = Inr g"
    by (simp add: gap_pct_of_eq)
  obtain r where r: "day_range_pct_of (get (regularMarketOpen (snapshot_of fund)))
        (get (regularMarketDayHigh (snapshot_of fund)))
        (get (regularMarketDayLow (snapshot_of fund))) = Inr r"
    by (simp add: day_range_pct_of_eq)
  obtain vr where vr: "volume_ratio_of (get (regularMarketVolume (snapshot_of fund)))
        (get (averageDailyVolume10Day (snapshot_of fund))) = Inr vr"
    by (simp add: volume_ratio_of_eq)
  from assms len ps lc pc cr g r vr obtain returns where
    rets: "compute_daily_returns ps = Inr returns"
    by (cases "compute_daily_returns ps")
       (simp_all add: compute_indicators_for_symbol_def Let_def)
  obtain vol where vol: "vol_10d_of returns = Inr vol"
    by (simp add: vol_10d_of_eq)
  from assms len ps lc pc cr g r vr rets vol have
    "sig = \<lparr>symbol = symb, close_return_1d = cr, gap_pct = g, day_range_pct = r,
            volume_ratio = vr, vol_10d = vol, in_play_score = in_play_score_of g r vr vol\<rparr>"
    by (simp add: compute_indicators_for_symbol_def Let_def)
  with len ps lc pc cr g r vr rets vol show thesis
    by (rule that)
qed

subsection \<open>Evaluation on the concrete inputs\<close>

lemmas engine_defs =
  compute_indicators_for_symbol_def sorted_by_date_def snapshot_of_def empty_snapshot_def
  close_return_1d_of_def gap_pct_of_def day_range_pct_of_def volume_ratio_of_def
  compute_daily_returns_def vol_10d_of_def in_play_score_of_def gap_contribution_def
  range_contribution_def volume_contribution_def volatility_contribution_def
  py_or_def py_ne0_def

lemma sorted_ex_rows: "sorted_by_date ex_rows = Inr ex_rows"
  by (simp add: sorted_by_date_def ex_rows_def)

lemma compute_ex:
  "compute_indicators_for_symbol ''AAPL'' ex_rows ex_fund = Inr (Some ex_signal)"
  by (simp add: engine_defs ex_rows_def ex_fund_def ex_snapshot_def ex_signal_def)

section \<open>The claims\<close>

subsection \<open>Snapshot Mixer\<close>

text \<open>
  C1, as the code has it. Whenever \<open>compute_indicators_for_symbol\<close> returns a signal,
  its \<open>day_range_pct\<close> is \<open>(today_high - today_low) / today_open\<close> if the three snapshot
  fields are present and all three are different from zero, and it is undefined otherwise:
  the source tests \<open>if today_open and today_high and today_low\<close>, so a present high or
  low equal to zero leaves the field undefined, as an absent one does.
\<close>

theorem day_range_pct_defined_iff_all_nonzero:
  assumes "compute_indicators_for_symbol symb daily_prices fund = Inr (Some sig)"
  shows "day_range_pct sig =
           (case (get (regularMarketOpen (snapshot_of fund)),
                  get (regularMarketDayHigh (snapshot_of fund)),
                  get (regularMarketDayLow (snapshot_of fund))) of
              (Some opn, Some h, Some l) \<Rightarrow>
                if opn \<noteq> 0 \<and> h \<noteq> 0 \<and> l \<noteq> 0 then Some ((h - l) / opn) else None
            | _ \<Rightarrow> None)"
  using assms
  by (elim compute_indicators_for_symbol_SomeE) (simp add: day_range_pct_of_eq)

theorem day_range_pct_defined_iff_all_nonzero_witness:
  "compute_indicators_for_symbol ''AAPL'' ex_rows ex_fund = Inr (Some ex_signal)
   \<and> day_range_pct ex_signal = Some ((112 - 107) / 108)"
  using day_range_pct_defined_iff_all_nonzero [OF compute_ex] compute_ex
  by (simp add: snapshot_of_def ex_fund_def ex_snapshot_def)

text \<open>
  C1 as stated fails on a snapshot whose low is present and zero: open 2, high 3, low 0.
  The specification's formula gives \<open>(3 - 0) / 2\<close>; the code leaves the field undefined.
\<close>

theorem day_range_pct_zero_low_counterexample:
  "spec_day_range_pct (get (regularMarketOpen snap_low_zero))
       (get (regularMarketDayHigh snap_low_zero)) (get (regularMarketDayLow snap_low_zero))
     = Some (3 / 2)
   \<and> compute_indicators_for_symbol ''AAPL'' ex_rows \<lparr>trading_snapshot = Present snap_low_zero\<rparr> =
     Inr (Some \<lparr>symbol = ''AAPL'', close_return_1d = Some (1 / 10), gap_pct = Some (2 / 100 - 1),
                day_range_pct = None, volume_ratio = None, vol_10d = None,
                in_play_score = 50\<rparr>)"
  by (simp add: engine_defs ex_rows_def snap_low_zero_def spec_day_range_pct_def)

text \<open>
  C2, as the code has it. The base of the gap is the snapshot's
  \<open>regularMarketPreviousClose\<close> if that is present and different from zero, and the close
  of the second-newest bar otherwise (\<open>prev_close_ref or prev_close\<close>); \<open>gap_pct\<close> is
  \<open>today_open / base - 1\<close> if the base and \<open>today_open\<close> are both present and different
  from zero, and undefined otherwise.
\<close>

theorem gap_pct_base_and_definedness:
  assumes "compute_indicators_for_symbol symb daily_prices fund = Inr (Some sig)"
    and "sorted_by_date daily_prices = Inr ps"
    and "close (ps ! (length ps - 2)) = Present prev_close"
  shows "gap_pct sig =
           (let base_prev_close =
                  (case get (regularMarketPreviousClose (snapshot_of fund)) of
                     Some ref \<Rightarrow> if ref \<noteq> 0 then Some ref else prev_close
                   | None \<Rightarrow> prev_close)
            in case (base_prev_close, get (regularMarketOpen (snapshot_of fund))) of
                 (Some b, Some opn) \<Rightarrow>
                   if b \<noteq> 0 \<and> opn \<noteq> 0 then Some (opn / b - 1) else None
               | _ \<Rightarrow> None)"
proof -
  have base: "py_or ref prev_close =
      (case ref of Some v \<Rightarrow> if v \<noteq> 0 then Some v else prev_close | None \<Rightarrow> prev_close)" for ref
    by (cases ref) (simp_all add: py_or_def)
  from assms(1) obtain ps' pc g where
    "sorted_by_date daily_prices = Inr ps'" "close (ps' ! (length ps' - 2)) = Present pc"
    "gap_pct_of pc (get (regularMarketOpen (snapshot_of fund)))
        (get (regularMarketPreviousClose (snapshot_of fund))) = Inr g"
    "gap_pct sig = g"
    by (elim compute_indicators_for_symbol_SomeE) simp
  with assms(2,3) have
    "gap_pct_of prev_close (get (regularMarketOpen (snapshot_of fund)))
        (get (regularMarketPreviousClose (snapshot_of fund))) = Inr (gap_pct sig)"
    by simp
  then show ?thesis
    unfolding gap_pct_of_eq base Let_def by simp
qed

theorem gap_pct_base_and_definedness_witness:
  "compute_indicators_for_symbol ''AAPL'' ex_rows ex_fund = Inr (Some ex_signal)
   \<and> sorted_by_date ex_rows = Inr ex_rows
   \<and> close (ex_rows ! (length ex_rows - 2)) = Present (Some 100)
   \<and> gap_pct ex_signal = Some (108 / 100 - 1)"
proof -
  have prev: "close (ex_rows ! (length ex_rows - 2)) = Present (Some 100)"
    by (simp add: ex_rows_def)
  from gap_pct_base_and_definedness [OF compute_ex sorted_ex_rows prev]
  show ?thesis
    using compute_ex sorted_ex_rows prev
    by (simp add: snapshot_of_def ex_fund_def ex_snapshot_def)
qed

text \<open>
  C2 as stated fails twice, on the price list whose second-newest close is 100. With
  \<open>today_open\<close> present and zero and a previous close of 100 in the snapshot, the
  specification's formula gives \<open>0 / 100 - 1\<close> and the code leaves \<open>gap_pct\<close> undefined.
  With the snapshot's previous close present and zero and \<open>today_open\<close> 110, the code
  does not take the snapshot's field as the base: it falls back to the close of the
  second-newest bar and gives \<open>110 / 100 - 1\<close>.
\<close>

theorem gap_pct_zero_fields_counterexample:
  "spec_gap_pct (Some 100) (get (regularMarketOpen snap_open_zero))
       (get (regularMarketPreviousClose snap_open_zero)) = Some (0 / 100 - 1)
   \<and> compute_indicators_for_symbol ''AAPL'' ex_rows \<lparr>trading_snapshot = Present snap_open_zero\<rparr> =
     Inr (Some \<lparr>symbol = ''AAPL'', close_return_1d = Some (1 / 10), gap_pct = None,
                day_range_pct = None, volume_ratio = None, vol_10d = None,
                in_play_score = 0\<rparr>)
   \<and> get (regularMarketPreviousClose snap_ref_zero) = Some 0
   \<and> compute_indicators_for_symbol ''AAPL'' ex_rows \<lparr>trading_snapshot = Present snap_ref_zero\<rparr> =
     Inr (Some \<lparr>symbol = ''AAPL'', close_return_1d = Some (1 / 10), gap_pct = Some (110 / 100 - 1),
                day_range_pct = None, volume_ratio = None, vol_10d = None,
                in_play_score = 10\<rparr>)"
  by (simp add: engine_defs ex_rows_def snap_open_zero_def snap_ref_zero_def spec_gap_pct_def)

text \<open>
  C3, as the code has it. \<open>volume_ratio\<close> is \<open>today_volume / avg_vol_10d\<close> if both are
  present and both are different from zero, and undefined otherwise: the source tests
  \<open>if today_volume and avg_vol_10d\<close>, so a present volume of zero leaves the field
  undefined.
\<close>

theorem volume_ratio_defined_iff_both_nonzero:
  assumes "compute_indicators_for_symbol symb daily_prices fund = Inr (Some sig)"
  shows "volume_ratio sig =
           (case (get (regularMarketVolume (snapshot_of fund)),
                  get (averageDailyVolume10Day (snapshot_of fund))) of
              (Some v, Some a) \<Rightarrow> if v \<noteq> 0 \<and> a \<noteq> 0 then Some (v / a) else None
            | _ \<Rightarrow> None)"
  using assms
  by (elim compute_indicators_for_symbol_SomeE) (simp add: volume_ratio_of_eq)

theorem volume_ratio_defined_iff_both_nonzero_witness:
  "compute_indicators_for_symbol ''AAPL'' ex_rows ex_fund = Inr (Some ex_signal)
   \<and> volume_ratio ex_signal = Some (2500000 / 1000000)"
  using volume_ratio_defined_iff_both_nonzero [OF compute_ex] compute_ex
  by (simp add: snapshot_of_def ex_fund_def ex_snapshot_def)

text \<open>
  C3 as stated fails on a present volume of zero with an average of 1000000: the
  specification's formula gives the ratio 0, the code leaves the field undefined.
\<close>

theorem volume_ratio_zero_volume_counterexample:
  "spec_volume_ratio (get (regularMarketVolume snap_volume_zero))
       (get (averageDailyVolume10Day snap_volume_zero)) = Some 0
   \<and> compute_indicators_for_symbol ''AAPL'' ex_rows \<lparr>trading_snapshot = Present snap_volume_zero\<rparr> =
     Inr (Some \<lparr>symbol = ''AAPL'', close_return_1d = Some (1 / 10), gap_pct = None,
                day_range_pct = None, volume_ratio = None, vol_10d = None,
                in_play_score = 0\<rparr>)"
  by (simp add: engine_defs ex_rows_def snap_volume_zero_def spec_volume_ratio_def)

lemma sorted_ex_rows4: "sorted_by_date ex_rows4 = Inr ex_rows4_by_date"
  by (simp add: sorted_by_date_def ex_rows4_def ex_rows4_by_date_def)

lemma returns_ex_rows4: "compute_daily_returns ex_rows4_by_date = Inr [- (1 / 10), 0, 1 / 10]"
  by (simp add: compute_daily_returns_def ex_rows4_by_date_def)

lemma sqrt_hundredth: "sqrt (1 / 100) = 1 / 10"
proof -
  have "sqrt ((1 / 10)\<^sup>2) = 1 / 10"
    by (rule real_sqrt_unique) simp_all
  then show ?thesis
    by (simp add: power2_eq_square)
qed

lemma vol_ex_rows4: "vol_10d_of [- (1 / 10), 0, 1 / 10] = Inr (Some (1 / 10))"
  by (simp add: vol_10d_of_def last10_def stdev_def mean_def power2_eq_square sqrt_hundredth)

lemma compute_ex4:
  "compute_indicators_for_symbol ''MSFT'' ex_rows4 empty_fundamentals = Inr (Some ex_signal4)"
proof -
  have "length ex_rows4_by_date = 4"
    "close (ex_rows4_by_date ! 3) = Present (Some 99)"
    "close (ex_rows4_by_date ! 2) = Present (Some 90)"
    by (simp_all add: ex_rows4_by_date_def)
  moreover have "length ex_rows4 = 4"
    by (simp add: ex_rows4_def)
  ultimately show ?thesis
    by (simp add: compute_indicators_for_symbol_def sorted_ex_rows4 returns_ex_rows4
        vol_ex_rows4 close_return_1d_of_def gap_pct_of_eq day_range_pct_of_eq
        volume_ratio_of_eq snapshot_of_def empty_fundamentals_def empty_snapshot_def
        py_or_def in_play_score_of_def gap_contribution_def range_contribution_def
        volume_contribution_def volatility_contribution_def ex_signal4_def)
qed

subsection \<open>Volatility Estimator\<close>

lemma vol_10d_of_nonneg:
  assumes "vol_10d_of returns = Inr (Some v)"
  shows "0 \<le> v"
proof -
  have "0 \<le> sum_list (map (\<lambda>x. (x - c)\<^sup>2) xs)" for c :: real and xs
    by (induction xs) simp_all
  with assms show ?thesis
    by (auto simp: vol_10d_of_eq split: if_splits)
qed


text \<open>
  The \<open>vol_10d\<close> of a returned signal is the estimator's value on the returns of the
  bars sorted by date.
\<close>

lemma vol_10d_of_signal:
  assumes "compute_indicators_for_symbol symb daily_prices fund = Inr (Some sig)"
  obtains ps returns where
    "sorted_by_date daily_prices = Inr ps"
    "compute_daily_returns ps = Inr returns"
    "vol_10d_of returns = Inr (vol_10d sig)"
  using assms by (elim compute_indicators_for_symbol_SomeE) simp

subsection \<open>Composite Scorer\<close>

lemma gap_contribution_bounds: "0 \<le> gap_contribution g \<and> gap_contribution g \<le> 50"
  by (cases g) (simp_all add: gap_contribution_def)

lemma volume_contribution_bounds: "0 \<le> volume_contribution vr \<and> volume_contribution vr \<le> 40"
  by (cases vr) (simp_all add: volume_contribution_def)

lemma range_contribution_upper: "range_contribution r \<le> 30"
  by (cases r) (simp_all add: range_contribution_def)

lemma range_contribution_lower:
  "(case r of None \<Rightarrow> True | Some v \<Rightarrow> 0 \<le> v) \<Longrightarrow> 0 \<le> range_contribution r"
  by (cases r) (simp_all add: range_contribution_def)

lemma volatility_contribution_upper: "volatility_contribution vol \<le> 30"
  by (cases vol) (simp_all add: volatility_contribution_def)

lemma volatility_contribution_lower:
  "(case vol of None \<Rightarrow> True | Some v \<Rightarrow> 0 \<le> v) \<Longrightarrow> 0 \<le> volatility_contribution vol"
  by (cases vol) (simp_all add: volatility_contribution_def)

lemma compute_ex4_fund:
  "compute_indicators_for_symbol ''MSFT'' ex_rows4 ex_fund = Inr (Some ex_signal4_fund)"
proof -
  have "length ex_rows4_by_date = 4"
    "close (ex_rows4_by_date ! 3) = Present (Some 99)"
    "close (ex_rows4_by_date ! 2) = Present (Some 90)"
    by (simp_all add: ex_rows4_by_date_def)
  moreover have "length ex_rows4 = 4"
    by (simp add: ex_rows4_def)
  ultimately show ?thesis
    by (simp add: compute_indicators_for_symbol_def sorted_ex_rows4 returns_ex_rows4
        vol_ex_rows4 close_return_1d_of_def gap_pct_of_eq day_range_pct_of_eq
        volume_ratio_of_eq snapshot_of_def ex_fund_def ex_snapshot_def
        py_or_def in_play_score_of_def gap_contribution_def range_contribution_def
        volume_contribution_def volatility_contribution_def ex_signal4_fund_def)
qed

text \<open>
  C6, as the code has it. For every signal the engine returns, the score is the sum of
  the four contributions, the gap, volume and volatility contributions lie in \<open>[0, 50]\<close>,
  \<open>[0, 40]\<close> and \<open>[0, 30]\<close>, the range contribution is at most 30, an undefined input
  contributes 0, and the score is at most 150. If moreover \<open>day_range_pct\<close> is undefined
  or not negative, the range contribution and the score are not negative. The range
  contribution \<open>min(day_range_pct * 100, 30)\<close> has no lower clamp, so this condition is
  needed; the volatility is a standard deviation and needs none.
\<close>

theorem score_contributions_bounded:
  assumes "compute_indicators_for_symbol symb daily_prices fund = Inr (Some sig)"
  shows "in_play_score sig =
           gap_contribution (gap_pct sig) + range_contribution (day_range_pct sig)
           + volume_contribution (volume_ratio sig) + volatility_contribution (vol_10d sig)
       \<and> 0 \<le> gap_contribution (gap_pct sig) \<and> gap_contribution (gap_pct sig) \<le> 50
       \<and> range_contribution (day_range_pct sig) \<le> 30
       \<and> 0 \<le> volume_contribution (volume_ratio sig)
       \<and> volume_contribution (volume_ratio sig) \<le> 40
       \<and> 0 \<le> volatility_contribution (vol_10d sig)
       \<and> volatility_contribution (vol_10d sig) \<le> 30
       \<and> gap_contribution None = 0 \<and> range_contribution None = 0
       \<and> volume_contribution None = 0 \<and> volatility_contribution None = 0
       \<and> in_play_score sig \<le> 150
       \<and> ((case day_range_pct sig of None \<Rightarrow> True | Some r \<Rightarrow> 0 \<le> r) \<longrightarrow>
            0 \<le> range_contribution (day_range_pct sig) \<and> 0 \<le> in_play_score sig)"
proof -
  from assms obtain returns where vol: "vol_10d_of returns = Inr (vol_10d sig)"
    by (rule vol_10d_of_signal)
  have score: "in_play_score sig =
           gap_contribution (gap_pct sig) + range_contribution (day_range_pct sig)
           + volume_contribution (volume_ratio sig) + volatility_contribution (vol_10d sig)"
    using assms
    by (elim compute_indicators_for_symbol_SomeE) (simp add: in_play_score_of_def)
  have "case vol_10d sig of None \<Rightarrow> True | Some v \<Rightarrow> 0 \<le> v"
    using vol by (auto split: option.splits dest: vol_10d_of_nonneg)
  then have v: "0 \<le> volatility_contribution (vol_10d sig)"
    by (rule volatility_contribution_lower)
  note g = gap_contribution_bounds [of "gap_pct sig"]
    and vr = volume_contribution_bounds [of "volume_ratio sig"]
    and r' = range_contribution_upper [of "day_range_pct sig"]
    and v' = volatility_contribution_upper [of "vol_10d sig"]
  have zero: "gap_contribution None = 0 \<and> range_contribution None = 0
       \<and> volume_contribution None = 0 \<and> volatility_contribution None = 0"
    by (simp add: gap_contribution_def range_contribution_def volume_contribution_def
        volatility_contribution_def)
  have lower: "0 \<le> range_contribution (day_range_pct sig) \<and> 0 \<le> in_play_score sig"
    if "case day_range_pct sig of None \<Rightarrow> True | Some r \<Rightarrow> 0 \<le> r"
    using range_contribution_lower [OF that] score g vr v by simp
  from score g vr r' v v' zero lower show ?thesis
    by simp
qed

theorem score_contributions_bounded_witness:
  "compute_indicators_for_symbol ''MSFT'' ex_rows4 ex_fund = Inr (Some ex_signal4_fund)
   \<and> day_range_pct ex_signal4_fund = Some (5 / 108)
   \<and> range_contribution (day_range_pct ex_signal4_fund) = 500 / 108
   \<and> gap_contribution (gap_pct ex_signal4_fund) = 8
   \<and> volume_contribution (volume_ratio ex_signal4_fund) = 15
   \<and> volatility_contribution (vol_10d ex_signal4_fund) = 10
   \<and> in_play_score ex_signal4_fund = 8 + 500 / 108 + 15 + 10
   \<and> 0 \<le> in_play_score ex_signal4_fund \<and> in_play_score ex_signal4_fund \<le> 150"
proof -
  have range: "case day_range_pct ex_signal4_fund of None \<Rightarrow> True | Some r \<Rightarrow> 0 \<le> r"
    by (simp add: ex_signal4_fund_def)
  from score_contributions_bounded [OF compute_ex4_fund] range compute_ex4_fund
  show ?thesis
    by (simp add: ex_signal4_fund_def gap_contribution_def range_contribution_def
        volume_contribution_def volatility_contribution_def)
qed

text \<open>
  C6 as stated fails on a snapshot whose high is below its low: open 100, high 90,
  low 110, on the two-bar price list and with no previous close in the snapshot. The gap
  is 0, \<open>day_range_pct\<close> is \<open>(90 - 110) / 100\<close>, its contribution is \<open>-20\<close>, and so is the
  score.
\<close>

theorem score_negative_range_counterexample:
  "compute_indicators_for_symbol ''AAPL'' ex_rows \<lparr>trading_snapshot = Present snap_inverted\<rparr> =
     Inr (Some \<lparr>symbol = ''AAPL'', close_return_1d = Some (1 / 10), gap_pct = Some 0,
                day_range_pct = Some (- (1 / 5)), volume_ratio = None, vol_10d = None,
                in_play_score = - 20\<rparr>)
   \<and> range_contribution (Some (- (1 / 5))) = - 20
   \<and> \<not> (0 \<le> range_contribution (Some (- (1 / 5))))"
  by (simp add: engine_defs ex_rows_def snap_inverted_def)

text \<open>With \<open>today_high\<close> not below \<open>today_low\<close> and a positive \<open>today_open\<close>, the
  \<open>day_range_pct\<close> of a returned signal is not negative.\<close>

lemma day_range_pct_nonneg:
  assumes "compute_indicators_for_symbol symb daily_prices fund = Inr (Some sig)"
    and "get (regularMarketOpen (snapshot_of fund)) = Some opn" and "0 < opn"
    and "get (regularMarketDayHigh (snapshot_of fund)) = Some h"
    and "get (regularMarketDayLow (snapshot_of fund)) = Some l" and "l \<le> h"
  shows "case day_range_pct sig of None \<Rightarrow> True | Some r \<Rightarrow> 0 \<le> r"
  using assms
  by (elim compute_indicators_for_symbol_SomeE) (auto simp: day_range_pct_of_eq)

subsection \<open>Return Calculator\<close>

text \<open>
  Where the calculator returns, one return is appended for every adjacent pair whose
  denominator is neither \<open>None\<close> nor zero.
\<close>

lemma skipped_pairs_Cons:
  "skipped_pairs (p # c # rest) =
     (if p = None \<or> p = Some 0 then 1 else 0) + skipped_pairs (c # rest)"
  by (simp add: skipped_pairs_def)

lemma skipped_pairs_le: "skipped_pairs closes \<le> length closes - 1"
  unfolding skipped_pairs_def
  by (metis length_butlast length_filter_le)

lemma returns_loop_length:
  "returns_loop closes acc = Inr rs \<Longrightarrow>
     length rs = length acc + (length closes - 1 - skipped_pairs closes)"
proof (induction closes acc arbitrary: rs rule: returns_loop.induct)
  case (1 prv cur rest returns)
  have le: "skipped_pairs (cur # rest) \<le> length rest"
    using skipped_pairs_le [of "cur # rest"] by simp
  show ?case
  proof (cases "prv = None \<or> prv = Some 0")
    case True
    with "1.prems" have "returns_loop (cur # rest) returns = Inr rs"
      by auto
    with True "1.IH"(1) have "length rs = length returns + (length rest - skipped_pairs (cur # rest))"
      by simp
    with True show ?thesis
      by (simp add: skipped_pairs_Cons)
  next
    case False
    with "1.prems" obtain q where q: "py_truediv cur prv = Inr q"
      and run: "returns_loop (cur # rest) (returns @ [q - 1]) = Inr rs"
      by (cases "py_truediv cur prv") auto
    from "1.IH"(2) [OF False run] le False show ?thesis
      by (simp add: skipped_pairs_Cons)
  qed
qed (simp_all add: skipped_pairs_def)

lemma returns_loop_short: "length closes \<le> 1 \<Longrightarrow> returns_loop closes acc = Inr acc"
  by (cases closes) auto

text \<open>If no close is \<open>None\<close> the loop returns.\<close>

lemma returns_loop_total:
  "None \<notin> set closes \<Longrightarrow> \<exists>rs. returns_loop closes acc = Inr rs"
proof (induction closes acc rule: returns_loop.induct)
  case (1 prv cur rest returns)
  from "1.prems" obtain p c where pc: "prv = Some p" "cur = Some c"
    by (cases prv; cases cur) auto
  from "1.prems" have rest: "None \<notin> set (cur # rest)"
    by simp
  show ?case
  proof (cases "p = 0")
    case True
    with pc "1.IH"(1) [OF _ rest] show ?thesis
      by simp
  next
    case False
    with pc have "\<not> (prv = None \<or> prv = Some 0)"
      by simp
    from "1.IH"(2) [OF this rest, of "c / p"] pc False show ?thesis
      by simp
  qed
qed simp_all

lemma compute_daily_returns_length:
  assumes "compute_daily_returns prices = Inr rs"
  obtains closes where "closes_of prices = Inr closes" "length closes = length prices"
    "length rs = length prices - 1 - skipped_pairs closes"
proof -
  have len: "closes_of ps = Inr cs \<Longrightarrow> length cs = length ps" for ps cs
  proof (induction ps arbitrary: cs)
    case (Cons row rows)
    then show ?case
      by (cases "close row"; cases "closes_of rows") auto
  qed simp
  from assms obtain closes where c: "closes_of prices = Inr closes"
    and run: "returns_loop closes [] = Inr rs"
    by (cases "closes_of prices") (simp_all add: compute_daily_returns_def)
  from returns_loop_length [OF run] len [OF c] c show thesis
    by (intro that [of closes]) simp_all
qed

lemma compute_daily_returns_short:
  "length prices \<le> 1 \<Longrightarrow> (\<forall>row \<in> set prices. close row \<noteq> Missing) \<Longrightarrow>
     compute_daily_returns prices = Inr []"
  by (cases prices rule: closes_of.cases; cases "close (hd prices)")
     (auto simp: compute_daily_returns_def)

text \<open>
  C4: the claim holds of the specification and fails on the code. On three bars whose
  middle close is null, the pair of the first two bars has the usable denominator 100 and
  the numerator \<open>None\<close>: \<open>curr / prev\<close> raises \<open>TypeError\<close> on line 49, the source
  testing \<open>prev is None\<close> only. The exception leaves
  \<open>compute_indicators_for_symbol\<close> too, so the symbol gets no signal.
\<close>

theorem return_calculator_raises_on_null_numerator:
  "compute_daily_returns rows_null_middle = Inl TypeError
   \<and> compute_indicators_for_symbol ''AAPL'' rows_null_middle empty_fundamentals = Inl TypeError"
  by (simp add: engine_defs rows_null_middle_def empty_fundamentals_def)


lemma returns_loop_unusable:
  "\<not> numerators_usable closes \<Longrightarrow> returns_loop closes acc = Inl TypeError"
  by (induction closes arbitrary: acc rule: usable_pairs.induct) auto






text \<open>A row without a \<open>close\<close> key makes the comprehension on line 42 raise.\<close>

lemma return_calculator_raises_on_missing_close_key:
  "compute_daily_returns rows_no_close = Inl KeyError"
  by (simp add: compute_daily_returns_def rows_no_close_def)

subsection \<open>Sorting by date\<close>

lemma date_keys_Inr:
  "date_keys rows = Inr ds \<Longrightarrow> ds = map date_of rows \<and> Missing \<notin> date ` set rows"
proof (induction rows arbitrary: ds)
  case (Cons row rows)
  then show ?case
    by (cases "date row"; cases "date_keys rows") (auto simp: date_of_def)
qed simp

lemma date_keys_present:
  "Missing \<notin> date ` set rows \<Longrightarrow> date_keys rows = Inr (map date_of rows)"
proof (induction rows)
  case (Cons row rows)
  then show ?case
    by (cases "date row") (auto simp: date_of_def)
qed simp

lemma insort_key_decorated:
  "insort_key fst (f x, x) (map (\<lambda>y. (f y, y)) ys) = map (\<lambda>y. (f y, y)) (insort_key f x ys)"
  by (induction ys) simp_all

lemma sort_key_decorated:
  "map snd (sort_key fst (zip (map f xs) xs)) = sort_key f xs"
proof -
  have zip: "zip (map f ys) ys = map (\<lambda>y. (f y, y)) ys" for ys
    by (induction ys) simp_all
  have "sort_key fst (map (\<lambda>y. (f y, y)) xs) = map (\<lambda>y. (f y, y)) (sort_key f xs)"
    by (induction xs) (simp_all add: insort_key_decorated)
  then show ?thesis
    by (simp add: zip comp_def)
qed

lemma sorted_by_date_present:
  "Missing \<notin> date ` set rows \<Longrightarrow> sorted_by_date rows = Inr (sort_key date_of rows)"
  by (simp add: sorted_by_date_def date_keys_present sort_key_decorated)

lemma sorted_by_date_Inr:
  "sorted_by_date rows = Inr ps \<Longrightarrow> ps = sort_key date_of rows \<and> Missing \<notin> date ` set rows"
  by (cases "date_keys rows")
     (auto simp: sorted_by_date_def sort_key_decorated dest!: date_keys_Inr)

lemma bind_err_Inr_iff: "bind_err m f = Inr y \<longleftrightarrow> (\<exists>x. m = Inr x \<and> f x = Inr y)"
  by (cases m) simp_all

text \<open>The function is the sort followed by lines 69 to 142, which never return the empty
  dictionary.\<close>

lemma compute_indicators_unfold:
  "compute_indicators_for_symbol symb daily_prices fund =
     (if length daily_prices < 2 then Inr None
      else bind_err (sorted_by_date daily_prices)
             (\<lambda>by_date. indicators_in_date_order symb by_date fund))"
  by (simp add: compute_indicators_for_symbol_def indicators_in_date_order_def)

lemma indicators_in_date_order_not_empty:
  "indicators_in_date_order symb by_date fund \<noteq> Inr None"
  by (auto simp: indicators_in_date_order_def Let_def bind_err_Inr_iff)

lemma indicators_in_date_order_fields:
  assumes "indicators_in_date_order symb by_date fund = Inr (Some sig)"
  shows "symbol sig = symb
       \<and> close_return_1d_of (get (close (by_date ! (length by_date - 1))))
            (get (close (by_date ! (length by_date - 2)))) = Inr (close_return_1d sig)
       \<and> (\<exists>returns. compute_daily_returns by_date = Inr returns
            \<and> vol_10d_of returns = Inr (vol_10d sig))"
  using assms
  by (auto simp: indicators_in_date_order_def Let_def bind_err_Inr_iff elim!: subscript.elims)

text \<open>If every row has a number as its close, lines 69 to 142 return a signal.\<close>

lemma closes_of_numbers:
  "\<forall>row \<in> set rows. \<exists>c. close row = Present (Some c) \<Longrightarrow>
     \<exists>closes. closes_of rows = Inr closes \<and> None \<notin> set closes"
  by (induction rows) auto

lemma indicators_in_date_order_returns:
  assumes "2 \<le> length by_date"
    and "\<forall>row \<in> set by_date. \<exists>c. close row = Present (Some c)"
  shows "\<exists>sig. indicators_in_date_order symb by_date fund = Inr (Some sig)"
proof -
  from assms have "by_date ! (length by_date - 1) \<in> set by_date"
    "by_date ! (length by_date - 2) \<in> set by_date"
    by simp_all
  with assms(2) obtain last_close prev_close where
    lc: "close (by_date ! (length by_date - 1)) = Present (Some last_close)"
    and pc: "close (by_date ! (length by_date - 2)) = Present (Some prev_close)"
    by blast
  have cr: "\<exists>cr. close_return_1d_of (Some last_close) (Some prev_close) = Inr cr"
    by (simp add: close_return_1d_of_def)
  from closes_of_numbers [OF assms(2)] obtain closes where
    "closes_of by_date = Inr closes" "None \<notin> set closes"
    by blast
  with returns_loop_total [of closes "[]"] obtain returns where
    "compute_daily_returns by_date = Inr returns"
    by (auto simp: compute_daily_returns_def)
  with lc pc cr show ?thesis
    by (auto simp: indicators_in_date_order_def Let_def gap_pct_of_eq day_range_pct_of_eq
        volume_ratio_of_eq vol_10d_of_eq)
qed

text \<open>
  C9. Let the rows of a price list all have a date and let the dates be distinct. Then
  the list has a date-sorted rearrangement, every permutation of the list is sorted into
  the same one, and \<open>compute_indicators_for_symbol\<close> returns on the permutation what it
  returns on the sorted list: the same signal, or the same error. For at least two bars
  this is what lines 69 to 142 compute from the date-sorted list, never the empty
  dictionary; a returned signal has the close-to-close return of the two newest bars by
  date and the volatility of the returns in date order; and a signal is returned if every
  bar has a number as its close.
\<close>

theorem compute_indicators_insensitive_to_bar_order:
  assumes "date_keys daily_prices = Inr ds"
    and "distinct ds"
    and "mset shuffled = mset daily_prices"
  shows "\<exists>by_date. sorted_by_date daily_prices = Inr by_date
           \<and> sorted_by_date shuffled = Inr by_date
           \<and> sorted (map date_of by_date) \<and> mset by_date = mset daily_prices
           \<and> compute_indicators_for_symbol symb shuffled fund =
               compute_indicators_for_symbol symb by_date fund
           \<and> compute_indicators_for_symbol symb shuffled fund =
               (if length daily_prices < 2 then Inr None
                else indicators_in_date_order symb by_date fund)
           \<and> indicators_in_date_order symb by_date fund \<noteq> Inr None
           \<and> (\<forall>sig. compute_indicators_for_symbol symb shuffled fund = Inr (Some sig) \<longrightarrow>
                 symbol sig = symb
               \<and> close_return_1d_of (get (close (by_date ! (length by_date - 1))))
                    (get (close (by_date ! (length by_date - 2)))) = Inr (close_return_1d sig)
               \<and> (\<exists>returns. compute_daily_returns by_date = Inr returns
                    \<and> vol_10d_of returns = Inr (vol_10d sig)))
           \<and> (2 \<le> length daily_prices
                \<and> (\<forall>row \<in> set daily_prices. \<exists>c. close row = Present (Some c)) \<longrightarrow>
               (\<exists>sig. compute_indicators_for_symbol symb shuffled fund = Inr (Some sig)))"
proof -
  define by_date where "by_date = sort_key date_of daily_prices"
  from assms(1) have ds: "ds = map date_of daily_prices"
    and present: "Missing \<notin> date ` set daily_prices"
    by (auto dest: date_keys_Inr)
  from assms(3) have sets: "set shuffled = set daily_prices"
    by (rule mset_eq_setD)
  from assms(2) ds have "inj_on date_of (set shuffled)"
    by (simp add: distinct_map sets)
  with assms(3) have same: "sort_key date_of shuffled = by_date"
    unfolding by_date_def by (rule sort_key_eq_sort_key)
  have sorted: "sorted (map date_of by_date)"
    by (simp add: by_date_def)
  then have idem: "sort_key date_of by_date = by_date"
    by (rule sort_key_id_if_sorted)
  have s1: "sorted_by_date daily_prices = Inr by_date"
    using present by (simp add: sorted_by_date_present by_date_def)
  have s2: "sorted_by_date shuffled = Inr by_date"
    using present sets same by (simp add: sorted_by_date_present)
  have "Missing \<notin> date ` set by_date"
    using present by (simp add: by_date_def)
  then have s3: "sorted_by_date by_date = Inr by_date"
    by (simp add: sorted_by_date_present idem)
  have len: "length shuffled = length daily_prices"
    using assms(3) by (rule mset_eq_length)
  have len': "length by_date = length daily_prices"
    by (simp add: by_date_def)
  have set': "set by_date = set daily_prices"
    by (simp add: by_date_def)
  have perm: "mset by_date = mset daily_prices"
    by (simp add: by_date_def)
  have run: "compute_indicators_for_symbol symb shuffled fund =
      (if length daily_prices < 2 then Inr None
       else indicators_in_date_order symb by_date fund)"
    by (simp add: compute_indicators_unfold s2 len)
  have run': "compute_indicators_for_symbol symb by_date fund =
      (if length daily_prices < 2 then Inr None
       else indicators_in_date_order symb by_date fund)"
    by (simp add: compute_indicators_unfold s3 len')
  have fields: "symbol sig = symb
       \<and> close_return_1d_of (get (close (by_date ! (length by_date - 1))))
            (get (close (by_date ! (length by_date - 2)))) = Inr (close_return_1d sig)
       \<and> (\<exists>returns. compute_daily_returns by_date = Inr returns
            \<and> vol_10d_of returns = Inr (vol_10d sig))"
    if "compute_indicators_for_symbol symb shuffled fund = Inr (Some sig)" for sig
  proof -
    from that run have "indicators_in_date_order symb by_date fund = Inr (Some sig)"
      by (simp split: if_splits)
    then show ?thesis
      by (rule indicators_in_date_order_fields)
  qed
  have returns: "\<exists>sig. compute_indicators_for_symbol symb shuffled fund = Inr (Some sig)"
    if "2 \<le> length daily_prices"
      and "\<forall>row \<in> set daily_prices. \<exists>c. close row = Present (Some c)"
    using indicators_in_date_order_returns [of by_date symb fund] that run
    by (simp add: len' set')
  have eq: "compute_indicators_for_symbol symb shuffled fund =
      compute_indicators_for_symbol symb by_date fund"
    by (simp only: run run')
  have fields': "\<forall>sig. compute_indicators_for_symbol symb shuffled fund = Inr (Some sig) \<longrightarrow>
                 symbol sig = symb
               \<and> close_return_1d_of (get (close (by_date ! (length by_date - 1))))
                    (get (close (by_date ! (length by_date - 2)))) = Inr (close_return_1d sig)
               \<and> (\<exists>returns. compute_daily_returns by_date = Inr returns
                    \<and> vol_10d_of returns = Inr (vol_10d sig))"
    using fields by blast
  have returns': "2 \<le> length daily_prices
                \<and> (\<forall>row \<in> set daily_prices. \<exists>c. close row = Present (Some c)) \<longrightarrow>
               (\<exists>sig. compute_indicators_for_symbol symb shuffled fund = Inr (Some sig))"
    using returns by blast
  note not_empty = indicators_in_date_order_not_empty [of symb by_date fund]
  show ?thesis
    by (rule exI [of _ by_date])
       (intro conjI s1 s2 sorted perm eq run not_empty fields' returns')
qed

lemma sorted_ex_rows4_by_date: "sorted_by_date ex_rows4_by_date = Inr ex_rows4_by_date"
  by (simp add: sorted_by_date_def ex_rows4_by_date_def)

lemma indicators_ex_rows4_unsorted:
  "indicators_in_date_order ''MSFT'' ex_rows4 ex_fund \<noteq> Inr (Some ex_signal4_fund)"
proof
  assume "indicators_in_date_order ''MSFT'' ex_rows4 ex_fund = Inr (Some ex_signal4_fund)"
  from indicators_in_date_order_fields [OF this]
  have "close_return_1d_of (get (close (ex_rows4 ! (length ex_rows4 - 1))))
       (get (close (ex_rows4 ! (length ex_rows4 - 2)))) = Inr (close_return_1d ex_signal4_fund)"
    by blast
  then show False
    by (simp add: ex_rows4_def ex_signal4_fund_def close_return_1d_of_def)
qed

theorem compute_indicators_insensitive_to_bar_order_witness:
  "date_keys ex_rows4_by_date = Inr [''2024-01-01'', ''2024-01-02'', ''2024-01-03'', ''2024-01-04'']
   \<and> distinct [''2024-01-01'', ''2024-01-02'', ''2024-01-03'', ''2024-01-04'']
   \<and> mset ex_rows4 = mset ex_rows4_by_date
   \<and> sorted_by_date ex_rows4 = Inr ex_rows4_by_date
   \<and> compute_indicators_for_symbol ''MSFT'' ex_rows4 ex_fund =
       compute_indicators_for_symbol ''MSFT'' ex_rows4_by_date ex_fund
   \<and> compute_indicators_for_symbol ''MSFT'' ex_rows4 ex_fund =
       indicators_in_date_order ''MSFT'' ex_rows4_by_date ex_fund
   \<and> compute_indicators_for_symbol ''MSFT'' ex_rows4 ex_fund = Inr (Some ex_signal4_fund)
   \<and> close_return_1d ex_signal4_fund = Some (99 / 90 - 1)
   \<and> vol_10d ex_signal4_fund = Some (1 / 10)
   \<and> indicators_in_date_order ''MSFT'' ex_rows4 ex_fund \<noteq> Inr (Some ex_signal4_fund)"
proof -
  have keys: "date_keys ex_rows4_by_date =
      Inr [''2024-01-01'', ''2024-01-02'', ''2024-01-03'', ''2024-01-04'']"
    by (simp add: ex_rows4_by_date_def)
  have dist: "distinct [''2024-01-01'', ''2024-01-02'', ''2024-01-03'', ''2024-01-04'']"
    by simp
  have perm: "mset ex_rows4 = mset ex_rows4_by_date"
    by (simp add: ex_rows4_def ex_rows4_by_date_def)
  have len: "\<not> length ex_rows4_by_date < 2"
    by (simp add: ex_rows4_by_date_def)
  from compute_indicators_insensitive_to_bar_order [OF keys dist perm, of "''MSFT''" ex_fund]
  obtain by_date where
    "sorted_by_date ex_rows4_by_date = Inr by_date"
    "compute_indicators_for_symbol ''MSFT'' ex_rows4 ex_fund =
       compute_indicators_for_symbol ''MSFT'' by_date ex_fund"
    "compute_indicators_for_symbol ''MSFT'' ex_rows4 ex_fund =
       (if length ex_rows4_by_date < 2 then Inr None
        else indicators_in_date_order ''MSFT'' by_date ex_fund)"
    by blast
  with len have
    "compute_indicators_for_symbol ''MSFT'' ex_rows4 ex_fund =
       compute_indicators_for_symbol ''MSFT'' ex_rows4_by_date ex_fund"
    "compute_indicators_for_symbol ''MSFT'' ex_rows4 ex_fund =
       indicators_in_date_order ''MSFT'' ex_rows4_by_date ex_fund"
    by (simp_all add: sorted_ex_rows4_by_date)
  with keys dist perm sorted_ex_rows4 compute_ex4_fund indicators_ex_rows4_unsorted
  show ?thesis
    by (simp add: ex_signal4_fund_def)
qed

subsection \<open>Signal Aggregator\<close>









subsection \<open>The engine on a store: what a call leaves unchanged\<close>

lemma list_append_frame:
  assumes "list_append returns x h = (res, h')"
  shows "length h' = length h \<and> take returns h' = take returns h"
  using assms by (auto simp: list_append_def split: sum.splits)

lemma returns_loop_st_frame:
  "returns_loop_st closes returns h = (res, h') \<Longrightarrow>
     length h' = length h \<and> take returns h' = take returns h"
proof (induction closes returns h arbitrary: res h' rule: returns_loop_st.induct)
  case (1 prv cur rest returns h)
  show ?case
  proof (cases "prv = None \<or> prv = Some 0")
    case True
    with "1.prems" "1.IH"(1) show ?thesis
      by simp
  next
    case False
    then have step: "returns_loop_st (prv # cur # rest) returns h =
        (case py_truediv cur prv of
           Inl e \<Rightarrow> (Inl e, h)
         | Inr q \<Rightarrow>
             (case list_append returns (q - 1) h of
                (Inl e, h') \<Rightarrow> (Inl e, h')
              | (Inr u, h') \<Rightarrow> returns_loop_st (cur # rest) returns h'))"
      by (simp only: returns_loop_st.simps if_False)
    show ?thesis
    proof (cases "py_truediv cur prv")
      case (Inl e)
      with step "1.prems" show ?thesis
        by simp
    next
      case (Inr q)
      obtain r1 h1 where app: "list_append returns (q - 1) h = (r1, h1)"
        by (cases "list_append returns (q - 1) h")
      note f1 = list_append_frame [OF app]
      show ?thesis
      proof (cases r1)
        case (Inl e)
        with step Inr app "1.prems" f1 show ?thesis
          by simp
      next
        case r1: (Inr u)
        with step Inr app "1.prems" have
          "returns_loop_st (cur # rest) returns h1 = (res, h')"
          by simp
        from "1.IH"(2) [OF False Inr app [symmetric] r1 this] f1 show ?thesis
          by simp
      qed
    qed
  qed
qed simp_all

lemma extends_by_length:
  assumes "length h \<le> length h'" and "take (length h) h' = h"
  shows "\<exists>fresh. h' = h @ fresh"
proof
  from assms(2) show "h' = h @ drop (length h) h'"
    by (metis append_take_drop_id)
qed

lemma compute_daily_returns_st_frame:
  "\<exists>fresh. snd (compute_daily_returns_st prices h) = h @ fresh"
proof (cases "row_list_at h prices")
  case (Inl e)
  then show ?thesis by (simp add: compute_daily_returns_st_def)
next
  case refs: (Inr refs)
  show ?thesis
  proof (cases "rows_at h refs")
    case (Inl e)
    with refs show ?thesis by (simp add: compute_daily_returns_st_def)
  next
    case rows: (Inr rows)
    show ?thesis
    proof (cases "closes_of rows")
      case (Inl e)
      with refs rows show ?thesis by (simp add: compute_daily_returns_st_def)
    next
      case closes: (Inr closes)
      obtain res h2 where
        loop: "returns_loop_st closes (length h) (h @ [FloatList []]) = (res, h2)"
        by (cases "returns_loop_st closes (length h) (h @ [FloatList []])")
      from returns_loop_st_frame [OF loop] have "length h \<le> length h2"
        and "take (length h) h2 = h"
        by simp_all
      then have ext: "\<exists>fresh. h2 = h @ fresh"
        by (rule extends_by_length)
      from refs rows closes loop have "snd (compute_daily_returns_st prices h) = h2"
        by (cases res) (simp_all add: compute_daily_returns_st_def alloc_def)
      with ext show ?thesis
        by simp
    qed
  qed
qed

lemma sorted_st_frame: "\<exists>fresh. snd (sorted_st daily_prices h) = h @ fresh"
  by (auto simp: sorted_st_def alloc_def split: sum.splits)

lemma indicators_of_sorted_frame:
  "\<exists>fresh. snd (indicators_of_sorted symb daily_prices_sorted fundamentals h) = h @ fresh"
proof -
  obtain res h' where run: "compute_daily_returns_st daily_prices_sorted h = (res, h')"
    by (cases "compute_daily_returns_st daily_prices_sorted h")
  with compute_daily_returns_st_frame [of daily_prices_sorted h]
  obtain fresh where "h' = h @ fresh"
    by auto
  with run show ?thesis
    unfolding indicators_of_sorted_def
    by (auto split: sum.splits prod.splits)
qed

text \<open>
  C10. Whatever the arguments and the store, a call of \<open>compute_indicators_for_symbol\<close>
  leaves the store it was given as it was and only adds objects to it (the sorted list
  and the list of returns): the list at \<open>daily_prices\<close> keeps its references in their
  order, the rows keep their contents, and the fundamentals and its snapshot are as
  before. This holds for the runs that raise as well.
\<close>

theorem compute_indicators_leaves_arguments_unchanged:
  "\<exists>fresh. snd (compute_indicators_for_symbol_st symb daily_prices fundamentals h) = h @ fresh"
proof (cases "row_list_at h daily_prices")
  case (Inl e)
  then show ?thesis
    by (simp add: compute_indicators_for_symbol_st_def)
next
  case (Inr refs)
  show ?thesis
  proof (cases "length refs < 2")
    case True
    with Inr show ?thesis
      by (simp add: compute_indicators_for_symbol_st_def)
  next
    case False
    obtain res h1 where srt: "sorted_st daily_prices h = (res, h1)"
      by (cases "sorted_st daily_prices h")
    with sorted_st_frame [of daily_prices h] obtain fresh1 where h1: "h1 = h @ fresh1"
      by auto
    show ?thesis
    proof (cases res)
      case (Inl e)
      with Inr False srt h1 show ?thesis
        by (simp add: compute_indicators_for_symbol_st_def)
    next
      case sorted: (Inr daily_prices_sorted)
      from indicators_of_sorted_frame [of symb daily_prices_sorted fundamentals h1]
      obtain fresh2 where
        "snd (indicators_of_sorted symb daily_prices_sorted fundamentals h1) = h1 @ fresh2"
        by auto
      with Inr False srt sorted h1 show ?thesis
        by (simp add: compute_indicators_for_symbol_st_def)
    qed
  qed
qed

subsection \<open>The engine on a store computes what the engine on values computes\<close>

lemma rows_at_iff:
  "rows_at h refs = Inr rows \<longleftrightarrow> list_all2 (\<lambda>r row. row_at h r = Inr row) refs rows"
proof (induction refs arbitrary: rows)
  case Nil
  then show ?case by auto
next
  case (Cons r rs)
  show ?case
  proof (cases "row_at h r")
    case (Inl e)
    then show ?thesis
      by (auto simp: list_all2_Cons1)
  next
    case row: (Inr row)
    show ?thesis
    proof (cases "rows_at h rs")
      case (Inl e)
      with row Cons.IH show ?thesis
        by (auto simp: list_all2_Cons1)
    next
      case (Inr rows')
      with row Cons.IH [of rows'] Cons.IH show ?thesis
        by (auto simp: list_all2_Cons1)
    qed
  qed
qed

lemma row_at_extend: "row_at h r = Inr row \<Longrightarrow> row_at (h @ fresh) r = Inr row"
  by (auto simp: row_at_def nth_append split: if_splits)

lemma snapshot_at_extend:
  "snapshot_at h a = Inr snap \<Longrightarrow> snapshot_at (h @ fresh) a = Inr snap"
  by (auto simp: snapshot_at_def snap_at_def nth_append split: if_splits obj.splits field.splits)

lemma insort_key_rel:
  assumes "list_all2 R xs ys" and "R x y" and "\<And>a b. R a b \<Longrightarrow> f a = g b"
  shows "list_all2 R (insort_key f x xs) (insort_key g y ys)"
  using assms(1)
proof (induction rule: list_all2_induct)
  case Nil
  from assms(2) show ?case by simp
next
  case (Cons a xs b ys)
  from assms(3) [OF assms(2)] assms(3) [OF Cons.hyps(1)] Cons assms(2) show ?case
    by simp
qed

lemma sort_key_rel:
  assumes "list_all2 R xs ys" and "\<And>a b. R a b \<Longrightarrow> f a = g b"
  shows "list_all2 R (sort_key f xs) (sort_key g ys)"
  using assms(1)
proof (induction rule: list_all2_induct)
  case Nil
  show ?case by simp
next
  case (Cons a xs b ys)
  from insort_key_rel [OF Cons.IH Cons.hyps(1) assms(2)] show ?case
    by simp
qed

lemma sorted_refs_rows:
  assumes "list_all2 P refs rows"
  shows "list_all2 P (map snd (sort_key fst (zip ds refs))) (map snd (sort_key fst (zip ds rows)))"
proof -
  let ?R = "\<lambda>a b. fst a = fst b \<and> P (snd a) (snd b)"
  from assms have "list_all2 ?R (zip ds refs) (zip ds rows)"
  proof (induction arbitrary: ds rule: list_all2_induct)
    case Nil
    show ?case by simp
  next
    case (Cons r refs row rows)
    then show ?case
      by (cases ds) simp_all
  qed
  then have "list_all2 ?R (sort_key fst (zip ds refs)) (sort_key fst (zip ds rows))"
    by (rule sort_key_rel) simp
  then have "list_all2 (\<lambda>a b. P (snd a) (snd b))
      (sort_key fst (zip ds refs)) (sort_key fst (zip ds rows))"
    by (rule list_all2_mono) simp
  then show ?thesis
    by (simp add: list_all2_map1 list_all2_map2)
qed

lemma returns_loop_st_result:
  "float_list_at h returns = Inr acc \<Longrightarrow>
     (case returns_loop closes acc of
        Inl e \<Rightarrow> fst (returns_loop_st closes returns h) = Inl e
      | Inr rs \<Rightarrow> fst (returns_loop_st closes returns h) = Inr ()
                 \<and> float_list_at (snd (returns_loop_st closes returns h)) returns = Inr rs)"
proof (induction closes returns h arbitrary: acc rule: returns_loop_st.induct)
  case (1 prv cur rest returns h)
  show ?case
  proof (cases "prv = None \<or> prv = Some 0")
    case True
    then have skip: "returns_loop_st (prv # cur # rest) returns h =
        returns_loop_st (cur # rest) returns h"
      "returns_loop (prv # cur # rest) acc = returns_loop (cur # rest) acc"
      by (simp_all only: returns_loop_st.simps returns_loop.simps if_True)
    show ?thesis
      unfolding skip by (rule "1.IH"(1) [OF True "1.prems"])
  next
    case False
    then have step: "returns_loop_st (prv # cur # rest) returns h =
        (case py_truediv cur prv of
           Inl e \<Rightarrow> (Inl e, h)
         | Inr q \<Rightarrow>
             (case list_append returns (q - 1) h of
                (Inl e, h') \<Rightarrow> (Inl e, h')
              | (Inr u, h') \<Rightarrow> returns_loop_st (cur # rest) returns h'))"
      and pure: "returns_loop (prv # cur # rest) acc =
        bind_err (py_truediv cur prv) (\<lambda>q. returns_loop (cur # rest) (acc @ [q - 1]))"
      by (simp_all only: returns_loop_st.simps returns_loop.simps if_False)
    show ?thesis
    proof (cases "py_truediv cur prv")
      case (Inl e)
      with step pure show ?thesis
        by simp
    next
      case (Inr q)
      let ?h1 = "h[returns := FloatList (acc @ [q - 1])]"
      from "1.prems" have app: "list_append returns (q - 1) h = (Inr (), ?h1)"
        by (simp add: list_append_def)
      from "1.prems" have at: "float_list_at ?h1 returns = Inr (acc @ [q - 1])"
        by (auto simp: float_list_at_def split: if_splits)
      from step pure Inr app have run: "returns_loop_st (prv # cur # rest) returns h =
          returns_loop_st (cur # rest) returns ?h1"
        "returns_loop (prv # cur # rest) acc = returns_loop (cur # rest) (acc @ [q - 1])"
        by simp_all
      show ?thesis
        unfolding run by (rule "1.IH"(2) [OF False Inr app [symmetric] refl at])
    qed
  qed
qed (simp_all)

lemma compute_daily_returns_st_result:
  assumes "row_list_at h prices = Inr refs" and "rows_at h refs = Inr rows"
  shows "case compute_daily_returns rows of
           Inl e \<Rightarrow> fst (compute_daily_returns_st prices h) = Inl e
         | Inr rs \<Rightarrow> \<exists>a. compute_daily_returns_st prices h = (Inr a, snd (compute_daily_returns_st prices h))
                       \<and> float_list_at (snd (compute_daily_returns_st prices h)) a = Inr rs"
proof (cases "closes_of rows")
  case (Inl e)
  with assms show ?thesis
    by (simp add: compute_daily_returns_def compute_daily_returns_st_def)
next
  case (Inr closes)
  let ?h1 = "h @ [FloatList []]"
  have "float_list_at ?h1 (length h) = Inr []"
    by (simp add: float_list_at_def)
  from returns_loop_st_result [OF this, of closes] assms Inr show ?thesis
    by (cases "returns_loop_st closes (length h) ?h1")
       (auto simp: compute_daily_returns_def compute_daily_returns_st_def alloc_def
          split: sum.splits)
qed

lemma indicators_of_sorted_result:
  assumes refs: "row_list_at h daily_prices_sorted = Inr srefs"
    and rows: "rows_at h srefs = Inr srows"
    and snap: "snapshot_at h fundamentals = Inr snap"
    and sorted: "sorted_by_date rows = Inr srows"
    and len: "length rows = length srows" "2 \<le> length rows"
  shows "fst (indicators_of_sorted symb daily_prices_sorted fundamentals h) =
           compute_indicators_for_symbol symb rows \<lparr>trading_snapshot = Present snap\<rparr>"
proof -
  let ?fund = "\<lparr>trading_snapshot = Present snap\<rparr>"
  let ?n = "length srows"
  from rows have all: "list_all2 (\<lambda>r row. row_at h r = Inr row) srefs srows"
    by (simp add: rows_at_iff)
  then have n: "length srefs = ?n"
    by (rule list_all2_lengthD)
  from len n have in_range: "?n - 1 < length srefs" "?n - 2 < length srefs"
    by simp_all
  have last: "row_at h (srefs ! (?n - 1)) = Inr (srows ! (?n - 1))"
    by (rule list_all2_nthD [OF all in_range(1)])
  have prev: "row_at h (srefs ! (?n - 2)) = Inr (srows ! (?n - 2))"
    by (rule list_all2_nthD [OF all in_range(2)])
  have fund: "snapshot_of ?fund = snap"
    by (simp add: snapshot_of_def)
  note pure = compute_indicators_for_symbol_def Let_def fund
  note st = indicators_of_sorted_def Let_def
  note blocks = gap_pct_of_eq day_range_pct_of_eq volume_ratio_of_eq
  show ?thesis
  proof (cases "close (srows ! (?n - 1))")
    case Missing
    with refs n last prev snap sorted len show ?thesis
      by (simp add: pure st)
  next
    case lc: (Present last_close)
    show ?thesis
    proof (cases "close (srows ! (?n - 2))")
      case Missing
      with refs n last prev snap sorted len lc show ?thesis
        by (simp add: pure st)
    next
      case pc: (Present prev_close)
      show ?thesis
      proof (cases "close_return_1d_of last_close prev_close")
        case (Inl e)
        with refs n last prev snap sorted len lc pc show ?thesis
          by (simp add: pure st)
      next
        case cr: (Inr cr)
        note run = compute_daily_returns_st_result [OF refs rows]
        show ?thesis
        proof (cases "compute_daily_returns srows")
          case (Inl e)
          with run have "fst (compute_daily_returns_st daily_prices_sorted h) = Inl e"
            by simp
          then obtain h' where "compute_daily_returns_st daily_prices_sorted h = (Inl e, h')"
            by (cases "compute_daily_returns_st daily_prices_sorted h") simp
          with Inl refs n last prev snap sorted len lc pc cr show ?thesis
            by (simp add: pure st blocks)
        next
          case (Inr rs)
          with run obtain a h' where
            "compute_daily_returns_st daily_prices_sorted h = (Inr a, h')"
            "float_list_at h' a = Inr rs"
            by auto
          with Inr refs n last prev snap sorted len lc pc cr show ?thesis
            by (simp add: pure st blocks vol_10d_of_eq)
        qed
      qed
    qed
  qed
qed

text \<open>
  If \<open>daily_prices\<close> refers to a list of references to the rows \<open>rows\<close> and
  \<open>fundamentals\<close> to a dictionary whose snapshot, or its default, is \<open>snap\<close>, the call
  on the store returns what \<open>compute_indicators_for_symbol\<close> returns on the values.
\<close>

lemma compute_indicators_for_symbol_st_result:
  assumes refs: "row_list_at h daily_prices = Inr refs"
    and rows: "rows_at h refs = Inr rows"
    and snap: "snapshot_at h fundamentals = Inr snap"
  shows "fst (compute_indicators_for_symbol_st symb daily_prices fundamentals h) =
           compute_indicators_for_symbol symb rows \<lparr>trading_snapshot = Present snap\<rparr>"
proof -
  from rows have all: "list_all2 (\<lambda>r row. row_at h r = Inr row) refs rows"
    by (simp add: rows_at_iff)
  then have n: "length refs = length rows"
    by (rule list_all2_lengthD)
  show ?thesis
  proof (cases "length rows < 2")
    case True
    with refs n show ?thesis
      by (simp add: compute_indicators_for_symbol_st_def compute_indicators_for_symbol_def)
  next
    case long: False
    show ?thesis
    proof (cases "date_keys rows")
      case (Inl e)
      with refs rows n long show ?thesis
        by (simp add: compute_indicators_for_symbol_st_def compute_indicators_for_symbol_def
            sorted_st_def sorted_by_date_def)
    next
      case (Inr ds)
      define srefs where "srefs = map snd (sort_key fst (zip ds refs))"
      define srows where "srows = map snd (sort_key fst (zip ds rows))"
      let ?h1 = "h @ [RowList srefs]"
      from Inr have "length ds = length rows"
        by (auto dest: date_keys_Inr)
      then have len: "length rows = length srows"
        by (simp add: srows_def)
      from refs rows Inr have srt: "sorted_st daily_prices h = (Inr (length h), ?h1)"
        by (simp add: sorted_st_def alloc_def srefs_def)
      from Inr have sorted: "sorted_by_date rows = Inr srows"
        by (simp add: sorted_by_date_def srows_def)
      from all have "list_all2 (\<lambda>r row. row_at h r = Inr row) srefs srows"
        unfolding srefs_def srows_def by (rule sorted_refs_rows)
      then have "list_all2 (\<lambda>r row. row_at ?h1 r = Inr row) srefs srows"
        by (rule list_all2_mono) (rule row_at_extend)
      then have rows1: "rows_at ?h1 srefs = Inr srows"
        by (simp add: rows_at_iff)
      have refs1: "row_list_at ?h1 (length h) = Inr srefs"
        by (simp add: row_list_at_def)
      from snap have snap1: "snapshot_at ?h1 fundamentals = Inr snap"
        by (rule snapshot_at_extend)
      from long have "2 \<le> length rows"
        by simp
      from indicators_of_sorted_result [OF refs1 rows1 snap1 sorted len this, of symb]
        refs n long srt
      show ?thesis
        by (simp add: compute_indicators_for_symbol_st_def)
    qed
  qed
qed

text \<open>The call on the example store: the signal of the scenario, the store as it was,
  and two new objects, the list sorted by date and the list of returns.\<close>

lemma compute_indicators_ex_store:
  "compute_indicators_for_symbol_st ''AAPL'' 0 3 ex_store =
     (Inr (Some ex_signal), ex_store @ [RowList [2, 1], FloatList [1 / 10]])"
  by (simp add: ex_store_def compute_indicators_for_symbol_st_def row_list_at_def row_at_def
      sorted_st_def alloc_def indicators_of_sorted_def snapshot_at_def snap_at_def
      compute_daily_returns_st_def list_append_def float_list_at_def ex_snapshot_def
      ex_signal_def close_return_1d_of_def gap_pct_of_def day_range_pct_of_def
      volume_ratio_of_def vol_10d_of_def in_play_score_of_def gap_contribution_def
      range_contribution_def volume_contribution_def volatility_contribution_def
      py_or_def py_ne0_def nth_append)

end
